theory Spec2Isabelle
  imports Main "HOL-Library.Word"
begin

section \<open>Pixels, images and arrays\<close>

text \<open>
  The script \<^verbatim>\<open>remove_white_background.py\<close> opens an image with Pillow, converts it
  to mode RGBA unless it has that mode already, turns it into a numpy array of shape
  height x width x 4 with 8-bit unsigned entries, computes a boolean mask of the pixels
  whose three colour channels exceed a threshold, sets the alpha channel of the masked
  pixels to 0 and saves the result as a PNG file.

  A channel value is an 8-bit word. A pixel of an RGBA image is a record of its four
  channels; index 0, 1, 2, 3 of the last axis of the array is the field \<open>red\<close>,
  \<open>green\<close>, \<open>blue\<close>, \<open>alpha\<close>. A grid is the list of its rows, top to bottom.
\<close>

type_synonym u8 = "8 word"

record rgba =
  red :: u8
  green :: u8
  blue :: u8
  alpha :: u8

text \<open>
  A decoded image, by Pillow mode: greyscale (one channel), RGB (three) and RGBA (four).
\<close>

datatype pil_image =
  ImageL "u8 list list"
| ImageRGB "(u8 \<times> u8 \<times> u8) list list"
| ImageRGBA "rgba list list"

fun mode :: "pil_image \<Rightarrow> string" where
  "mode (ImageL g) = ''L''"
| "mode (ImageRGB g) = ''RGB''"
| "mode (ImageRGBA g) = ''RGBA''"

fun channels :: "pil_image \<Rightarrow> nat" where
  "channels (ImageL g) = 1"
| "channels (ImageRGB g) = 3"
| "channels (ImageRGBA g) = 4"

text \<open>The attribute \<^verbatim>\<open>size\<close> of an image is the pair (width, height).\<close>

definition width :: "'a list list \<Rightarrow> nat" where
  "width g = (case g of [] \<Rightarrow> 0 | row # _ \<Rightarrow> length row)"

definition height :: "'a list list \<Rightarrow> nat" where
  "height g = length g"

fun size_of :: "pil_image \<Rightarrow> nat \<times> nat" where
  "size_of (ImageL g) = (width g, height g)"
| "size_of (ImageRGB g) = (width g, height g)"
| "size_of (ImageRGBA g) = (width g, height g)"

text \<open>The length of every row, top to bottom: the shape of the grid.\<close>

fun row_lengths :: "pil_image \<Rightarrow> nat list" where
  "row_lengths (ImageL g) = map length g"
| "row_lengths (ImageRGB g) = map length g"
| "row_lengths (ImageRGBA g) = map length g"

text \<open>
  Modelled from the spec: \<^verbatim>\<open>Image.convert\<close> is a function of the Pillow library, which
  is not part of the repository. Its result for the target mode RGBA is modelled as the
  spec describes the normalisation: an image with fewer than four channels is expanded
  to four channels and every pixel gets a fully opaque alpha channel (255); a grey value
  is copied to the three colour channels, the colours of an RGB pixel are kept; an image
  that is RGBA already keeps its pixels.
\<close>

fun to_rgba :: "pil_image \<Rightarrow> rgba list list" where
  "to_rgba (ImageL g) =
     map (map (\<lambda>l. \<lparr>red = l, green = l, blue = l, alpha = 255\<rparr>)) g"
| "to_rgba (ImageRGB g) =
     map (map (\<lambda>(r, g, b). \<lparr>red = r, green = g, blue = b, alpha = 255\<rparr>)) g"
| "to_rgba (ImageRGBA g) = g"

definition convert_RGBA :: "pil_image \<Rightarrow> pil_image" where
  "convert_RGBA img = ImageRGBA (to_rgba img)"

text \<open>
  The exceptions of the model. All but \<open>KeyboardInterrupt\<close> are subclasses of
  \<^verbatim>\<open>Exception\<close>; the argument is the file name the exception reports.
\<close>

datatype exn =
  FileNotFoundError string
| UnidentifiedImageError string
| PermissionError string
| IndexError
| ValueError
| KeyboardInterrupt

fun isinstance_Exception :: "exn \<Rightarrow> bool" where
  "isinstance_Exception KeyboardInterrupt = False"
| "isinstance_Exception e = True"

fun str :: "exn \<Rightarrow> string" where
  "str (FileNotFoundError p) = ''[Errno 2] No such file or directory: '' @ [CHR 0x27] @ p @ [CHR 0x27]"
| "str (UnidentifiedImageError p) = ''cannot identify image file '' @ [CHR 0x27] @ p @ [CHR 0x27]"
| "str (PermissionError p) = ''[Errno 13] Permission denied: '' @ [CHR 0x27] @ p @ [CHR 0x27]"
| "str IndexError = ''too many indices for array''"
| "str ValueError = ''invalid array shape for mode''"
| "str KeyboardInterrupt = []"

text \<open>
  \<^verbatim>\<open>np.array(img)\<close>: a greyscale image gives an array of shape height x width, an RGB
  image one of shape height x width x 3 and an RGBA image one of shape
  height x width x 4, all of element type uint8.
\<close>

datatype ndarray =
  Array2 "u8 list list"
| Array3 "(u8 \<times> u8 \<times> u8) list list"
| Array4 "rgba list list"

fun np_array :: "pil_image \<Rightarrow> ndarray" where
  "np_array (ImageL g) = Array2 g"
| "np_array (ImageRGB g) = Array3 g"
| "np_array (ImageRGBA g) = Array4 g"

text \<open>
  \<^verbatim>\<open>data[:, :, k]\<close>: the plane of channel \<open>k\<close>. An array with two axes has no third index,
  and an index beyond the last axis is out of bounds: numpy raises IndexError.
\<close>

fun channel :: "ndarray \<Rightarrow> nat \<Rightarrow> exn + u8 list list" where
  "channel (Array2 g) k = Inl IndexError"
| "channel (Array3 g) k =
     (if k = 0 then Inr (map (map (\<lambda>(r, g, b). r)) g)
      else if k = 1 then Inr (map (map (\<lambda>(r, g, b). g)) g)
      else if k = 2 then Inr (map (map (\<lambda>(r, g, b). b)) g)
      else Inl IndexError)"
| "channel (Array4 g) k =
     (if k = 0 then Inr (map (map red) g)
      else if k = 1 then Inr (map (map green) g)
      else if k = 2 then Inr (map (map blue) g)
      else if k = 3 then Inr (map (map alpha) g)
      else Inl IndexError)"

text \<open>
  \<^verbatim>\<open>plane > threshold\<close>, elementwise. The threshold is a Python integer, the entries
  are unsigned bytes, and the comparison is the one of their integer values, also for a
  threshold outside 0..255.
\<close>

definition gt :: "u8 list list \<Rightarrow> int \<Rightarrow> bool list list" where
  "gt plane threshold = map (map (\<lambda>v. threshold < uint v)) plane"

text \<open>\<^verbatim>\<open>m & n\<close> on boolean arrays of one shape, elementwise.\<close>

definition band :: "bool list list \<Rightarrow> bool list list \<Rightarrow> bool list list" where
  "band m n = map2 (map2 (\<and>)) m n"

text \<open>Lines 30 to 32: the mask of the white pixels.\<close>

definition white_pixels :: "ndarray \<Rightarrow> int \<Rightarrow> exn + bool list list" where
  "white_pixels data threshold =
     (case channel data 0 of Inl e \<Rightarrow> Inl e | Inr r \<Rightarrow>
      (case channel data 1 of Inl e \<Rightarrow> Inl e | Inr g \<Rightarrow>
       (case channel data 2 of Inl e \<Rightarrow> Inl e | Inr b \<Rightarrow>
          Inr (band (band (gt r threshold) (gt g threshold)) (gt b threshold)))))"

text \<open>
  Line 35, \<^verbatim>\<open>data[white_pixels, 3] = 0\<close>: channel 3 of every pixel where the mask holds
  becomes 0, everything else stays. A mask of another shape than the first two axes and
  an array without a channel 3 raise IndexError.
\<close>

fun assign_alpha :: "ndarray \<Rightarrow> bool list list \<Rightarrow> exn + ndarray" where
  "assign_alpha (Array4 g) m =
     (if map length m = map length g
      then Inr (Array4 (map2 (map2 (\<lambda>p w. if w then p\<lparr>alpha := 0\<rparr> else p)) g m))
      else Inl IndexError)"
| "assign_alpha (Array3 g) m = Inl IndexError"
| "assign_alpha (Array2 g) m = Inl IndexError"

text \<open>\<^verbatim>\<open>Image.fromarray(data, 'RGBA')\<close> needs an array with four channels.\<close>

fun fromarray_RGBA :: "ndarray \<Rightarrow> exn + pil_image" where
  "fromarray_RGBA (Array4 g) = Inr (ImageRGBA g)"
| "fromarray_RGBA (Array3 g) = Inl ValueError"
| "fromarray_RGBA (Array2 g) = Inl ValueError"

text \<open>Lines 22 to 26: the array the masking works on.\<close>

definition load_data :: "pil_image \<Rightarrow> ndarray" where
  "load_data img = np_array (if mode img \<noteq> ''RGBA'' then convert_RGBA img else img)"

text \<open>
  Lines 22 to 38 of \<^verbatim>\<open>remove_white_background\<close>: from the opened image to the image
  that is saved.
\<close>

definition transparent_image :: "pil_image \<Rightarrow> int \<Rightarrow> exn + pil_image" where
  "transparent_image img threshold =
     (let data = load_data img in
      case white_pixels data threshold of Inl e \<Rightarrow> Inl e | Inr wp \<Rightarrow>
       (case assign_alpha data wp of Inl e \<Rightarrow> Inl e | Inr data' \<Rightarrow>
          fromarray_RGBA data'))"

section \<open>Files, output and the script\<close>

text \<open>
  The world of the script: the files by path, which paths can be written, and the lines
  printed so far. A file holds an image or something that is no image; encoding and
  decoding are Pillow's, and PNG stores an RGBA image without loss.

  \<^verbatim>\<open>Image.open\<close> and \<^verbatim>\<open>Image.save\<close> are Pillow's as well. Opening a path without a file
  raises FileNotFoundError, opening a file that is no image raises
  UnidentifiedImageError, and saving to a path that cannot be written raises an OSError
  (here PermissionError) before anything is written.
\<close>

datatype file_content = ImageFile pil_image | OtherFile

record world =
  files :: "string \<Rightarrow> file_content option"
  writable :: "string \<Rightarrow> bool"
  stdout :: "string list"

definition Image_open :: "world \<Rightarrow> string \<Rightarrow> exn + pil_image" where
  "Image_open w path =
     (case files w path of
        None \<Rightarrow> Inl (FileNotFoundError path)
      | Some OtherFile \<Rightarrow> Inl (UnidentifiedImageError path)
      | Some (ImageFile img) \<Rightarrow> Inr img)"

definition save_PNG :: "pil_image \<Rightarrow> string \<Rightarrow> world \<Rightarrow> exn + world" where
  "save_PNG img path w =
     (if writable w path then Inr (w\<lparr>files := (files w)(path \<mapsto> ImageFile img)\<rparr>)
      else Inl (PermissionError path))"

definition print :: "string \<Rightarrow> world \<Rightarrow> world" where
  "print line w = w\<lparr>stdout := stdout w @ [line]\<rparr>"

text \<open>
  The function returns nothing or raises, and leaves a world behind either way.
\<close>

definition remove_white_background ::
  "string \<Rightarrow> string \<Rightarrow> int \<Rightarrow> world \<Rightarrow> (exn + unit) \<times> world" where
  "remove_white_background input_path output_path threshold w =
     (case Image_open w input_path of Inl e \<Rightarrow> (Inl e, w) | Inr img \<Rightarrow>
      (case transparent_image img threshold of Inl e \<Rightarrow> (Inl e, w) | Inr new_img \<Rightarrow>
       (case save_PNG new_img output_path w of Inl e \<Rightarrow> (Inl e, w) | Inr w' \<Rightarrow>
          (Inr (), print (''Saved transparent image to: '' @ output_path) w'))))"

definition input_file :: string where
  "input_file = ''public/assets/sprites/cannon2.png''"

definition output_file :: string where
  "output_file = ''public/assets/sprites/cannon2_transparent.png''"

text \<open>
  The script's entry point, with the exit status of the process: 0 when the script runs
  to its end, 1 when an exception leaves it. \<^verbatim>\<open>except Exception\<close> handles the
  instances of \<^verbatim>\<open>Exception\<close> only.
\<close>

definition main :: "world \<Rightarrow> world \<times> nat" where
  "main w =
     (case remove_white_background input_file output_file 240 w of
        (Inr u, w') \<Rightarrow> (print ''Successfully removed white background!'' w', 0)
      | (Inl e, w') \<Rightarrow>
          (if isinstance_Exception e then (print (''Error: '' @ str e) w', 0)
           else (w', 1)))"

section \<open>Reading one pixel of the input\<close>

text \<open>
  The colour of the input pixel in row \<open>i\<close> and column \<open>j\<close>, read off the image as it
  was opened: the R, G and B of an RGB or RGBA image, and the grey value of a greyscale
  image for all three. Only an RGBA image has an alpha of its own.
\<close>

fun rgb_at :: "pil_image \<Rightarrow> nat \<Rightarrow> nat \<Rightarrow> u8 \<times> u8 \<times> u8" where
  "rgb_at (ImageL g) i j = (g ! i ! j, g ! i ! j, g ! i ! j)"
| "rgb_at (ImageRGB g) i j = g ! i ! j"
| "rgb_at (ImageRGBA g) i j = (red (g ! i ! j), green (g ! i ! j), blue (g ! i ! j))"

fun alpha_at :: "pil_image \<Rightarrow> nat \<Rightarrow> nat \<Rightarrow> u8 option" where
  "alpha_at (ImageL g) i j = None"
| "alpha_at (ImageRGB g) i j = None"
| "alpha_at (ImageRGBA g) i j = Some (alpha (g ! i ! j))"

section \<open>What the masking computes\<close>

text \<open>The effect of lines 30 to 35 on one pixel.\<close>

definition is_white :: "int \<Rightarrow> rgba \<Rightarrow> bool" where
  "is_white threshold p \<longleftrightarrow>
     threshold < uint (red p) \<and> threshold < uint (green p) \<and> threshold < uint (blue p)"

definition mask_pixel :: "int \<Rightarrow> rgba \<Rightarrow> rgba" where
  "mask_pixel threshold p = (if is_white threshold p then p\<lparr>alpha := 0\<rparr> else p)"

lemma band_map: "band (map (map f) g) (map (map h) g) = map (map (\<lambda>p. f p \<and> h p)) g"
  unfolding band_def by (induction g) (simp_all add: map2_map_map)

lemma white_pixels_Array4:
  "white_pixels (Array4 g) t = Inr (map (map (is_white t)) g)"
proof -
  have "band (band (gt (map (map red) g) t) (gt (map (map green) g) t))
          (gt (map (map blue) g) t)
        = map (map (is_white t)) g"
    unfolding gt_def by (simp add: band_map o_def is_white_def)
  then show ?thesis by (simp add: white_pixels_def)
qed

lemma assign_alpha_map:
  "assign_alpha (Array4 g) (map (map P) g)
     = Inr (Array4 (map (map (\<lambda>p. if P p then p\<lparr>alpha := 0\<rparr> else p)) g))"
proof -
  have "map2 (map2 (\<lambda>p w. if w then p\<lparr>alpha := 0\<rparr> else p)) g (map (map P) g)
        = map (map (\<lambda>p. if P p then p\<lparr>alpha := 0\<rparr> else p)) g"
  proof (induction g)
    case Nil
    show ?case by simp
  next
    case (Cons row g)
    have "map2 (\<lambda>p w. if w then p\<lparr>alpha := 0\<rparr> else p) row (map P row)
          = map (\<lambda>p. if P p then p\<lparr>alpha := 0\<rparr> else p) row"
      using map2_map_map [of "\<lambda>p w. if w then p\<lparr>alpha := 0\<rparr> else p" "\<lambda>p. p" row P]
      by simp
    with Cons show ?case by simp
  qed
  moreover have "map length (map (map P) g) = map length g"
    by simp
  ultimately show ?thesis by simp
qed

lemma load_data_Array4: "load_data img = Array4 (to_rgba img)"
  by (cases img) (simp_all add: load_data_def convert_RGBA_def)

lemma transparent_image_eq:
  "transparent_image img t = Inr (ImageRGBA (map (map (mask_pixel t)) (to_rgba img)))"
proof -
  have "(\<lambda>p. if is_white t p then p\<lparr>alpha := 0\<rparr> else p) = mask_pixel t"
    by (simp add: mask_pixel_def fun_eq_iff)
  then have "assign_alpha (Array4 (to_rgba img)) (map (map (is_white t)) (to_rgba img))
             = Inr (Array4 (map (map (mask_pixel t)) (to_rgba img)))"
    using assign_alpha_map [of "to_rgba img" "is_white t"] by simp
  then show ?thesis
    by (simp add: transparent_image_def load_data_Array4 white_pixels_Array4
        del: assign_alpha.simps)
qed

lemma length_to_rgba: "map length (to_rgba img) = row_lengths img"
  by (cases img) (simp_all add: o_def)

lemma in_range_to_rgba:
  assumes "i < length (row_lengths img)" and "j < row_lengths img ! i"
  shows "i < length (to_rgba img)" and "j < length (to_rgba img ! i)"
proof -
  have "length (map length (to_rgba img)) = length (row_lengths img)"
    by (simp only: length_to_rgba)
  with assms(1) show i: "i < length (to_rgba img)" by simp
  have "map length (to_rgba img) ! i = row_lengths img ! i"
    by (simp only: length_to_rgba)
  with i assms(2) show "j < length (to_rgba img ! i)" by simp
qed

lemma to_rgba_rgb_at:
  assumes "i < length (row_lengths img)" and "j < row_lengths img ! i"
  shows "(red (to_rgba img ! i ! j), green (to_rgba img ! i ! j), blue (to_rgba img ! i ! j))
           = rgb_at img i j"
  using assms by (cases img) (simp_all split: prod.splits)

lemma to_rgba_alpha_at:
  assumes "i < length (row_lengths img)" and "j < row_lengths img ! i"
  shows "alpha (to_rgba img ! i ! j) = (case alpha_at img i j of None \<Rightarrow> 255 | Some a \<Rightarrow> a)"
  using assms by (cases img) (simp_all split: prod.splits)

lemma masked_pixel_at:
  assumes "i < length (row_lengths img)" and "j < row_lengths img ! i"
  shows "\<exists>out. transparent_image img t = Inr (ImageRGBA out) \<and>
           out ! i ! j = mask_pixel t (to_rgba img ! i ! j)"
  using in_range_to_rgba [OF assms] by (simp add: transparent_image_eq)

lemma white_pixels_load_data:
  "white_pixels (load_data img) t = Inr (map (map (is_white t)) (to_rgba img))"
  by (simp only: load_data_Array4 white_pixels_Array4)

lemma is_white_alpha_update [simp]: "is_white t (p\<lparr>alpha := a\<rparr>) = is_white t p"
  by (simp add: is_white_def)

lemma u8_le_255: "uint (v :: u8) \<le> 255"
proof -
  have "uint v < 2 ^ LENGTH(8)" by (rule uint_bounded)
  then show ?thesis by simp
qed

lemma is_white_high: "255 \<le> t \<Longrightarrow> \<not> is_white t p"
  using u8_le_255 [of "red p"] by (simp add: is_white_def)

lemma is_white_negative: "t < 0 \<Longrightarrow> is_white t p"
proof -
  assume "t < 0"
  moreover have "0 \<le> uint (red p)" "0 \<le> uint (green p)" "0 \<le> uint (blue p)"
    by simp_all
  ultimately show ?thesis unfolding is_white_def by linarith
qed

lemma mask_pixel_idem: "mask_pixel t (mask_pixel t p) = mask_pixel t p"
  by (simp add: mask_pixel_def)

lemma remove_white_background_decoded:
  assumes "Image_open w input_path = Inr img"
  shows "remove_white_background input_path output_path t w =
           (if writable w output_path
            then (Inr (), print (''Saved transparent image to: '' @ output_path)
                    (w\<lparr>files := (files w)(output_path \<mapsto>
                        ImageFile (ImageRGBA (map (map (mask_pixel t)) (to_rgba img))))\<rparr>))
            else (Inl (PermissionError output_path), w))"
  using assms
  by (simp add: remove_white_background_def transparent_image_eq save_PNG_def)

lemma remove_white_background_undecoded:
  assumes "Image_open w input_path = Inl e"
  shows "remove_white_background input_path output_path t w = (Inl e, w)"
  using assms by (simp add: remove_white_background_def)

lemma raised_is_Exception:
  assumes "fst (remove_white_background input_path output_path t w) = Inl e"
  shows "isinstance_Exception e"
proof (cases "Image_open w input_path")
  case (Inl e')
  with assms have "e = e'"
    by (simp add: remove_white_background_undecoded)
  with Inl show ?thesis
    by (auto simp: Image_open_def split: option.splits file_content.splits)
next
  case (Inr img)
  with assms show ?thesis
    by (auto simp: remove_white_background_decoded split: if_splits)
qed

text \<open>
  Scenario A of the spec, computed with the definitions as they stand: a 2x1 RGB image
  with a white and a black pixel, threshold 240.
\<close>

lemma scenario_A:
  "transparent_image (ImageRGB [[(255, 255, 255), (0, 0, 0)]]) 240
     = Inr (ImageRGBA [[\<lparr>red = 255, green = 255, blue = 255, alpha = 0\<rparr>,
                        \<lparr>red = 0, green = 0, blue = 0, alpha = 255\<rparr>]])"
  by (simp add: transparent_image_def load_data_def convert_RGBA_def white_pixels_def
      gt_def band_def)

section \<open>The alpha channel of the output\<close>

text \<open>
  Claim C1, as the code has it. For every image, every threshold and every pixel
  position of the image, the transformation returns an RGBA image in which the pixel
  has alpha 0 when the R, G and B of the input pixel are all strictly greater than the
  threshold. Every other pixel has alpha 255 when the input image has no alpha channel
  (it was converted to RGBA), and keeps its own input alpha when the input image is RGBA
  already: the conversion is guarded by the test of the mode, so an RGBA input is never
  forced to full opacity.
\<close>

theorem alpha_of_output:
  assumes "i < length (row_lengths img)" and "j < row_lengths img ! i"
    and "rgb_at img i j = (r, g, b)"
  shows "\<exists>out. transparent_image img threshold = Inr (ImageRGBA out) \<and>
           alpha (out ! i ! j) =
             (if threshold < uint r \<and> threshold < uint g \<and> threshold < uint b then 0
              else case alpha_at img i j of None \<Rightarrow> 255 | Some a \<Rightarrow> a)"
proof -
  let ?p = "to_rgba img ! i ! j"
  from assms have rgb: "red ?p = r" "green ?p = g" "blue ?p = b"
    using to_rgba_rgb_at [of i img j] by simp_all
  have "alpha (mask_pixel threshold ?p) =
          (if threshold < uint r \<and> threshold < uint g \<and> threshold < uint b then 0
           else case alpha_at img i j of None \<Rightarrow> 255 | Some a \<Rightarrow> a)"
    using rgb to_rgba_alpha_at [OF assms(1,2)] by (simp add: mask_pixel_def is_white_def)
  with masked_pixel_at [OF assms(1,2), of threshold] show ?thesis by auto
qed

text \<open>
  The theorem at a 2x1 RGBA image, threshold 240, at the dark pixel with alpha 128.
\<close>

theorem alpha_of_output_witness:
  "(0::nat) < length (row_lengths (ImageRGBA [[\<lparr>red = 255, green = 255, blue = 255, alpha = 77\<rparr>,
        \<lparr>red = 0, green = 0, blue = 0, alpha = 128\<rparr>]]))
   \<and> (1::nat) < row_lengths (ImageRGBA [[\<lparr>red = 255, green = 255, blue = 255, alpha = 77\<rparr>,
        \<lparr>red = 0, green = 0, blue = 0, alpha = 128\<rparr>]]) ! 0
   \<and> rgb_at (ImageRGBA [[\<lparr>red = 255, green = 255, blue = 255, alpha = 77\<rparr>,
        \<lparr>red = 0, green = 0, blue = 0, alpha = 128\<rparr>]]) 0 1 = (0, 0, 0)
   \<and> (\<exists>out. transparent_image (ImageRGBA [[\<lparr>red = 255, green = 255, blue = 255, alpha = 77\<rparr>,
        \<lparr>red = 0, green = 0, blue = 0, alpha = 128\<rparr>]]) 240 = Inr (ImageRGBA out)
          \<and> alpha (out ! 0 ! 1) = 128)"
  using alpha_of_output [of 0 "ImageRGBA [[\<lparr>red = 255, green = 255, blue = 255, alpha = 77\<rparr>,
        \<lparr>red = 0, green = 0, blue = 0, alpha = 128\<rparr>]]" 1 0 0 0 240]
  by simp

text \<open>
  Claim C1 as the spec states it fails: a 1x1 RGBA image whose pixel is black with alpha
  128 is returned as it is at threshold 240. The pixel is not white, and its alpha is 128
  in the output, not 255.
\<close>

theorem forced_opacity_counterexample:
  "transparent_image (ImageRGBA [[\<lparr>red = 0, green = 0, blue = 0, alpha = 128\<rparr>]]) 240
     = Inr (ImageRGBA [[\<lparr>red = 0, green = 0, blue = 0, alpha = 128\<rparr>]])
   \<and> alpha \<lparr>red = 0, green = 0, blue = 0, alpha = 128\<rparr> \<noteq> 255
   \<and> \<not> 240 < uint (red \<lparr>red = 0, green = 0, blue = 0, alpha = 128\<rparr>)"
  by (simp add: transparent_image_def load_data_def white_pixels_def gt_def band_def)

section \<open>The classification of a pixel\<close>

text \<open>
  Claim C2. For every image, every threshold and every pixel position, the mask computed
  in lines 30 to 32 holds at the pixel exactly when R, G and B of the input pixel are
  each strictly greater than the threshold. The alpha channel takes no part: the mask is
  the same when every alpha of the array is replaced by any value \<open>a\<close>. A pixel whose
  R, G and B all equal the threshold is not in the mask, and the output has that pixel
  as it was in the array, alpha included.
\<close>

theorem white_pixels_strict:
  assumes "i < length (row_lengths img)" and "j < row_lengths img ! i"
    and "rgb_at img i j = (r, g, b)"
  shows "\<exists>m. white_pixels (load_data img) threshold = Inr m \<and>
           m ! i ! j = (threshold < uint r \<and> threshold < uint g \<and> threshold < uint b) \<and>
           white_pixels (Array4 (map (map (\<lambda>p. p\<lparr>alpha := a\<rparr>)) (to_rgba img))) threshold
             = Inr m \<and>
           (uint r = threshold \<and> uint g = threshold \<and> uint b = threshold \<longrightarrow>
              \<not> m ! i ! j \<and>
              (\<exists>out. transparent_image img threshold = Inr (ImageRGBA out) \<and>
                 out ! i ! j = to_rgba img ! i ! j))"
proof -
  let ?p = "to_rgba img ! i ! j"
  let ?m = "map (map (is_white threshold)) (to_rgba img)"
  note rng = in_range_to_rgba [OF assms(1,2)]
  from assms have rgb: "red ?p = r" "green ?p = g" "blue ?p = b"
    using to_rgba_rgb_at [of i img j] by simp_all
  have m: "white_pixels (load_data img) threshold = Inr ?m"
    by (rule white_pixels_load_data)
  have at: "?m ! i ! j = (threshold < uint r \<and> threshold < uint g \<and> threshold < uint b)"
    using rng rgb by (simp add: is_white_def)
  have indep: "white_pixels (Array4 (map (map (\<lambda>p. p\<lparr>alpha := a\<rparr>)) (to_rgba img))) threshold
                 = Inr ?m"
    by (simp add: white_pixels_Array4 o_def)
  have bound: "\<not> ?m ! i ! j \<and>
      (\<exists>out. transparent_image img threshold = Inr (ImageRGBA out) \<and> out ! i ! j = ?p)"
    if "uint r = threshold \<and> uint g = threshold \<and> uint b = threshold"
  proof -
    from that at have nw: "\<not> ?m ! i ! j" by simp
    with rng have "\<not> is_white threshold ?p" by simp
    then have "mask_pixel threshold ?p = ?p" by (simp add: mask_pixel_def)
    with masked_pixel_at [OF assms(1,2), of threshold] nw show ?thesis by auto
  qed
  from m at indep bound show ?thesis by blast
qed

text \<open>
  The theorem at the boundary: a 1x1 RGB image with R = G = B = 240 and threshold 240.
\<close>

theorem white_pixels_strict_witness:
  "(0::nat) < length (row_lengths (ImageRGB [[(240, 240, 240)]]))
   \<and> (0::nat) < row_lengths (ImageRGB [[(240, 240, 240)]]) ! 0
   \<and> rgb_at (ImageRGB [[(240, 240, 240)]]) 0 0 = (240, 240, 240)
   \<and> uint (240 :: u8) = 240
   \<and> (\<exists>m. white_pixels (load_data (ImageRGB [[(240, 240, 240)]])) 240 = Inr m \<and> \<not> m ! 0 ! 0
        \<and> (\<exists>out. transparent_image (ImageRGB [[(240, 240, 240)]]) 240 = Inr (ImageRGBA out)
              \<and> alpha (out ! 0 ! 0) = 255))"
  using white_pixels_strict [of 0 "ImageRGB [[(240, 240, 240)]]" 0 240 240 240 240 0]
  by auto

section \<open>The colour channels\<close>

text \<open>
  Claim C3. For every image, every threshold and every pixel position, the transformation
  returns an RGBA image whose pixel has the R, G and B of the input pixel: only the alpha
  channel is modified.
\<close>

theorem colours_unchanged:
  assumes "i < length (row_lengths img)" and "j < row_lengths img ! i"
  shows "\<exists>out. transparent_image img threshold = Inr (ImageRGBA out) \<and>
           (red (out ! i ! j), green (out ! i ! j), blue (out ! i ! j)) = rgb_at img i j"
proof -
  let ?p = "to_rgba img ! i ! j"
  have "red (mask_pixel threshold ?p) = red ?p" "green (mask_pixel threshold ?p) = green ?p"
    "blue (mask_pixel threshold ?p) = blue ?p"
    by (simp_all add: mask_pixel_def)
  with to_rgba_rgb_at [OF assms]
  have "(red (mask_pixel threshold ?p), green (mask_pixel threshold ?p),
         blue (mask_pixel threshold ?p)) = rgb_at img i j"
    by simp
  with masked_pixel_at [OF assms, of threshold] show ?thesis by auto
qed

text \<open>The theorem at the white pixel of a 2x1 RGB image, threshold 240.\<close>

theorem colours_unchanged_witness:
  "(0::nat) < length (row_lengths (ImageRGB [[(255, 255, 255), (0, 0, 0)]]))
   \<and> (0::nat) < row_lengths (ImageRGB [[(255, 255, 255), (0, 0, 0)]]) ! 0
   \<and> (\<exists>out. transparent_image (ImageRGB [[(255, 255, 255), (0, 0, 0)]]) 240 = Inr (ImageRGBA out)
         \<and> (red (out ! 0 ! 0), green (out ! 0 ! 0), blue (out ! 0 ! 0)) = (255, 255, 255))"
  using colours_unchanged [of 0 "ImageRGB [[(255, 255, 255), (0, 0, 0)]]" 0 240]
  by simp

section \<open>Images without an alpha channel\<close>

text \<open>
  Claim C4. For every image with fewer than four channels (greyscale or RGB), the mode is
  not RGBA, so the image is converted, and the array the masking works on is the image
  expanded: it has four channels and the shape of the image, and at every pixel position
  it holds the colour of the input pixel together with alpha 255.
\<close>

theorem opaque_alpha_synthesized:
  assumes "channels img < 4"
    and "i < length (row_lengths img)" and "j < row_lengths img ! i"
    and "rgb_at img i j = (r, g, b)"
  shows "mode img \<noteq> ''RGBA'' \<and>
         (\<exists>data. load_data img = Array4 data \<and> map length data = row_lengths img \<and>
            data ! i ! j = \<lparr>red = r, green = g, blue = b, alpha = 255\<rparr>)"
proof -
  let ?p = "to_rgba img ! i ! j"
  from assms(1) have m: "mode img \<noteq> ''RGBA''" and "alpha_at img i j = None"
    by (cases img; simp)+
  with to_rgba_alpha_at [OF assms(2,3)] have a: "alpha ?p = 255"
    by simp
  from assms(4) to_rgba_rgb_at [OF assms(2,3)]
  have c: "red ?p = r" "green ?p = g" "blue ?p = b"
    by simp_all
  from a c have "?p = \<lparr>red = r, green = g, blue = b, alpha = 255\<rparr>"
    by (cases ?p) simp
  with m length_to_rgba [of img] load_data_Array4 [of img] show ?thesis
    by simp
qed

text \<open>
  The theorem at the second pixel of a 2x1 greyscale image: grey 200 becomes the opaque
  pixel (200, 200, 200, 255).
\<close>

theorem opaque_alpha_synthesized_witness:
  "channels (ImageL [[7, 200]]) < 4
   \<and> (0::nat) < length (row_lengths (ImageL [[7, 200]]))
   \<and> (1::nat) < row_lengths (ImageL [[7, 200]]) ! 0
   \<and> rgb_at (ImageL [[7, 200]]) 0 1 = (200, 200, 200)
   \<and> (\<exists>data. load_data (ImageL [[7, 200]]) = Array4 data \<and> map length data = [2] \<and>
         data ! 0 ! 1 = \<lparr>red = 200, green = 200, blue = 200, alpha = 255\<rparr>)"
  using opaque_alpha_synthesized [of "ImageL [[7, 200]]" 0 1 200 200 200]
  by auto

section \<open>Thresholds outside 0..254\<close>

text \<open>
  Claim C5. For every image: with a threshold of at least 255 the mask holds nowhere and
  the output is the array as it was loaded, no alpha zeroed; with a negative threshold
  the mask holds everywhere and every alpha of the output is 0.
\<close>

theorem degenerate_thresholds:
  "(255 \<le> threshold \<longrightarrow>
      white_pixels (load_data img) threshold = Inr (map (map (\<lambda>p. False)) (to_rgba img)) \<and>
      transparent_image img threshold = Inr (ImageRGBA (to_rgba img))) \<and>
   (threshold < 0 \<longrightarrow>
      white_pixels (load_data img) threshold = Inr (map (map (\<lambda>p. True)) (to_rgba img)) \<and>
      transparent_image img threshold
        = Inr (ImageRGBA (map (map (\<lambda>p. p\<lparr>alpha := 0\<rparr>)) (to_rgba img))))"
proof (intro conjI impI)
  assume hi: "255 \<le> threshold"
  then have "is_white threshold = (\<lambda>p. False)"
    by (simp add: fun_eq_iff is_white_high)
  moreover from hi have "mask_pixel threshold = (\<lambda>p. p)"
    by (simp add: fun_eq_iff mask_pixel_def is_white_high)
  ultimately show
    "white_pixels (load_data img) threshold = Inr (map (map (\<lambda>p. False)) (to_rgba img))"
    "transparent_image img threshold = Inr (ImageRGBA (to_rgba img))"
    by (simp_all add: white_pixels_load_data transparent_image_eq)
next
  assume lo: "threshold < 0"
  then have "is_white threshold = (\<lambda>p. True)"
    by (simp add: fun_eq_iff is_white_negative)
  moreover from lo have "mask_pixel threshold = (\<lambda>p. p\<lparr>alpha := 0\<rparr>)"
    by (simp add: fun_eq_iff mask_pixel_def is_white_negative)
  ultimately show
    "white_pixels (load_data img) threshold = Inr (map (map (\<lambda>p. True)) (to_rgba img))"
    "transparent_image img threshold
       = Inr (ImageRGBA (map (map (\<lambda>p. p\<lparr>alpha := 0\<rparr>)) (to_rgba img)))"
    by (simp_all add: white_pixels_load_data transparent_image_eq)
qed

text \<open>The theorem at thresholds 255 and -1, on a 2x1 RGB image.\<close>

theorem degenerate_thresholds_witness:
  "(255::int) \<le> 255
   \<and> transparent_image (ImageRGB [[(255, 255, 255), (0, 0, 0)]]) 255
       = Inr (ImageRGBA [[\<lparr>red = 255, green = 255, blue = 255, alpha = 255\<rparr>,
                          \<lparr>red = 0, green = 0, blue = 0, alpha = 255\<rparr>]])
   \<and> (- 1 :: int) < 0
   \<and> transparent_image (ImageRGB [[(255, 255, 255), (0, 0, 0)]]) (- 1)
       = Inr (ImageRGBA [[\<lparr>red = 255, green = 255, blue = 255, alpha = 0\<rparr>,
                          \<lparr>red = 0, green = 0, blue = 0, alpha = 0\<rparr>]])"
  using degenerate_thresholds [of 255 "ImageRGB [[(255, 255, 255), (0, 0, 0)]]"]
    degenerate_thresholds [of "- 1" "ImageRGB [[(255, 255, 255), (0, 0, 0)]]"]
  by simp

section \<open>The shape of the output\<close>

text \<open>
  Claim C6. For every image and threshold the transformation returns an image of mode
  RGBA, with four channels of 8 bits each, that has the width and the height of the
  input, and every row the length it had.
\<close>

theorem dimensions_preserved:
  "\<exists>new_img. transparent_image img threshold = Inr new_img \<and>
     mode new_img = ''RGBA'' \<and> channels new_img = 4 \<and>
     size_of new_img = size_of img \<and> row_lengths new_img = row_lengths img"
proof -
  let ?out = "map (map (mask_pixel threshold)) (to_rgba img)"
  have rows: "map length ?out = row_lengths img"
    using length_to_rgba [of img] by (simp add: o_def)
  have "width ?out = width (to_rgba img)" "height ?out = height (to_rgba img)"
    by (simp_all add: width_def height_def split: list.splits)
  moreover have "(width (to_rgba img), height (to_rgba img)) = size_of img"
    by (cases img) (simp_all add: width_def height_def split: list.splits)
  ultimately have "size_of (ImageRGBA ?out) = size_of img"
    by simp
  with rows show ?thesis
    by (simp add: transparent_image_eq)
qed

text \<open>The theorem at a greyscale image of width 3 and height 2.\<close>

theorem dimensions_preserved_witness:
  "\<exists>new_img. transparent_image (ImageL [[1, 2, 3], [4, 5, 6]]) 240 = Inr new_img \<and>
     mode new_img = ''RGBA'' \<and> channels new_img = 4 \<and> size_of new_img = (3, 2)"
  using dimensions_preserved [of "ImageL [[1, 2, 3], [4, 5, 6]]" 240]
  by (auto simp: width_def height_def)

section \<open>Masking twice\<close>

text \<open>
  Claim C7. For every image and threshold the transformation returns an image, and the
  transformation of that image with the same threshold returns the same image again.
\<close>

theorem masking_idempotent:
  "\<exists>new_img. transparent_image img threshold = Inr new_img \<and>
     transparent_image new_img threshold = Inr new_img"
proof -
  let ?out = "map (map (mask_pixel threshold)) (to_rgba img)"
  have "transparent_image (ImageRGBA ?out) threshold
          = Inr (ImageRGBA (map (map (mask_pixel threshold)) ?out))"
    using transparent_image_eq [of "ImageRGBA ?out" threshold] by simp
  also have "map (map (mask_pixel threshold)) ?out = ?out"
    by (simp add: o_def mask_pixel_idem)
  finally show ?thesis
    by (simp add: transparent_image_eq)
qed

text \<open>The theorem at a 2x1 RGB image with a white and a black pixel, threshold 240.\<close>

theorem masking_idempotent_witness:
  "\<exists>new_img. transparent_image (ImageRGB [[(255, 255, 255), (0, 0, 0)]]) 240 = Inr new_img \<and>
     transparent_image new_img 240 = Inr new_img \<and>
     new_img = ImageRGBA [[\<lparr>red = 255, green = 255, blue = 255, alpha = 0\<rparr>,
                          \<lparr>red = 0, green = 0, blue = 0, alpha = 255\<rparr>]]"
  using masking_idempotent [of "ImageRGB [[(255, 255, 255), (0, 0, 0)]]" 240]
  by (auto simp: transparent_image_eq mask_pixel_def is_white_def)

section \<open>Failures and the exit status\<close>

text \<open>
  Claim C8. When the input path holds no image, whether no file is there at all or the
  file cannot be identified as an image, \<^verbatim>\<open>remove_white_background\<close> raises the
  exception of \<^verbatim>\<open>Image.open\<close> to its caller (FileNotFoundError for a missing path,
  UnidentifiedImageError otherwise; they are the decoding errors of the script) and
  leaves the world as it was: nothing is written at the output path.
\<close>

theorem undecodable_input:
  assumes "\<forall>img. files w input_path \<noteq> Some (ImageFile img)"
  shows "\<exists>e. remove_white_background input_path output_path threshold w = (Inl e, w) \<and>
           e = (if files w input_path = None then FileNotFoundError input_path
                else UnidentifiedImageError input_path) \<and>
           files (snd (remove_white_background input_path output_path threshold w)) output_path
             = files w output_path"
proof -
  from assms have "Image_open w input_path =
      Inl (if files w input_path = None then FileNotFoundError input_path
           else UnidentifiedImageError input_path)"
    by (auto simp: Image_open_def split: option.splits file_content.splits)
  then show ?thesis
    by (simp add: remove_white_background_undecoded)
qed

text \<open>The theorem in a world without files: the input path does not exist.\<close>

theorem undecodable_input_witness:
  "(\<forall>img. files \<lparr>files = (\<lambda>p. None), writable = (\<lambda>p. True), stdout = []\<rparr> ''missing.png''
       \<noteq> Some (ImageFile img))
   \<and> remove_white_background ''missing.png'' ''out.png'' 240
        \<lparr>files = (\<lambda>p. None), writable = (\<lambda>p. True), stdout = []\<rparr>
      = (Inl (FileNotFoundError ''missing.png''),
         \<lparr>files = (\<lambda>p. None), writable = (\<lambda>p. True), stdout = []\<rparr>)
   \<and> files (snd (remove_white_background ''missing.png'' ''out.png'' 240
        \<lparr>files = (\<lambda>p. None), writable = (\<lambda>p. True), stdout = []\<rparr>)) ''out.png'' = None"
  using undecodable_input [of "\<lparr>files = (\<lambda>p. None), writable = (\<lambda>p. True), stdout = []\<rparr>"
      "''missing.png''" "''out.png''" 240]
  by simp

text \<open>
  Claim C10. The entry point ends with exit status 0 in every world. Every exception that
  \<^verbatim>\<open>remove_white_background\<close> raises is an instance of \<^verbatim>\<open>Exception\<close>, so it is caught, and
  the line \<^verbatim>\<open>Error: ...\<close> with its message is printed; the exit status is 0 then too.
\<close>

theorem main_exits_with_0:
  "snd (main w) = 0 \<and>
   (fst (remove_white_background input_file output_file 240 w) = Inl e \<longrightarrow>
      fst (main w) = print (''Error: '' @ str e) w)"
proof -
  obtain r w' where rw: "remove_white_background input_file output_file 240 w = (r, w')"
    by (cases "remove_white_background input_file output_file 240 w")
  show ?thesis
  proof (cases r)
    case (Inr u)
    with rw show ?thesis by (simp add: main_def)
  next
    case (Inl e')
    with rw have exc: "isinstance_Exception e'"
      using raised_is_Exception [of input_file output_file 240 w e'] by simp
    have "w' = w"
    proof (cases "Image_open w input_file")
      case (Inl e2)
      with rw show ?thesis by (simp add: remove_white_background_undecoded)
    next
      case (Inr img)
      with rw \<open>r = Inl e'\<close> show ?thesis
        by (auto simp: remove_white_background_decoded split: if_splits)
    qed
    with rw Inl exc show ?thesis by (auto simp: main_def)
  qed
qed

text \<open>The theorem in a world without files: the sprite is missing.\<close>

theorem main_exits_with_0_witness:
  "fst (remove_white_background input_file output_file 240
       \<lparr>files = (\<lambda>p. None), writable = (\<lambda>p. True), stdout = []\<rparr>)
     = Inl (FileNotFoundError input_file)
   \<and> snd (main \<lparr>files = (\<lambda>p. None), writable = (\<lambda>p. True), stdout = []\<rparr>) = 0
   \<and> stdout (fst (main \<lparr>files = (\<lambda>p. None), writable = (\<lambda>p. True), stdout = []\<rparr>))
       = [''Error: [Errno 2] No such file or directory: '' @ [CHR 0x27]
            @ ''public/assets/sprites/cannon2.png'' @ [CHR 0x27]]"
  using main_exits_with_0 [of "\<lparr>files = (\<lambda>p. None), writable = (\<lambda>p. True), stdout = []\<rparr>"
      "FileNotFoundError input_file"]
  by (simp add: remove_white_background_def Image_open_def print_def input_file_def)

end
